theory Spec2Isabelle
  imports Main
begin

section \<open>JSON values and stream parts\<close>

text \<open>
  \<^verbatim>\<open>type JSONValue = null | string | number | boolean | {[x: string]: JSONValue} | Array<JSONValue>\<close>
  (index.d.ts, line 260).  An object is the list of its entries in enumeration order.
  Numbers are the integers only: a JavaScript number is an IEEE double, which is outside
  this development.  \<open>JNumber i\<close> is the number \<open>i\<close> when \<open>i\<close> is a safe integer (at most
  \<open>2^53 - 1\<close> in absolute value), the integers that a double holds exactly.
\<close>

datatype json =
    JNull
  | JString string
  | JNumber int
  | JBool bool
  | JObject "(string \<times> json) list"
  | JArray "json list"

text \<open>
  \<^verbatim>\<open>interface FunctionCall { arguments?: string; name?: string }\<close> and
  \<^verbatim>\<open>interface ToolCall { id: string; type: string; function: { name: string; arguments: string } }\<close>
  (index.d.ts, lines 3 to 26).
\<close>

record function_call =
  fc_arguments :: "string option"
  fc_name :: "string option"

record tool_call =
  tc_id :: string
  tc_type :: string
  tc_function_name :: string
  tc_function_arguments :: string

text \<open>
  \<^verbatim>\<open>type AssistantMessage = { id: string; role: 'assistant';
    content: Array<{ type: 'text'; text: { value: string } }> }\<close> and
  \<^verbatim>\<open>type DataMessage = { id?: string; role: 'data'; data: JSONValue }\<close>
  (index.d.ts, lines 263 to 277).  The fields \<open>role\<close> and \<open>type\<close> have a single
  value each, so a content item is its \<open>text.value\<close>.
\<close>

record assistant_message =
  am_id :: string
  am_content :: "string list"

record data_message =
  dm_id :: "string option"
  dm_data :: json

text \<open>
  \<^verbatim>\<open>StreamPartType\<close> (index.d.ts, lines 287 to 302): the \<open>{type, value}\<close> pairs that the
  eight stream parts parse to, one constructor per \<open>type\<close>.
\<close>

datatype stream_part =
    Text_part string
  | Function_call_part function_call
  | Data_part "json list"
  | Error_part string
  | Assistant_message_part assistant_message
  | Assistant_control_data_part string string
  | Data_message_part data_message
  | Tool_calls_part "tool_call list"

section \<open>The assistant hook (react/use-assistant.ts)\<close>

subsection \<open>State\<close>

text \<open>
  \<^verbatim>\<open>type AssistantStatus = 'in_progress' | 'awaiting_message'\<close>, the roles of
  \<^verbatim>\<open>Message\<close>, and the fields of a message that the hook writes (\<open>id\<close>, \<open>role\<close>,
  \<open>content\<close>, \<open>data\<close>); its other fields are optional and stay undefined here.
\<close>

datatype assistant_status = In_progress | Awaiting_message

datatype role = System | User | Assistant | Function | Data | Tool

record message =
  msg_id :: string
  msg_role :: role
  msg_content :: string
  msg_data :: "json option"

text \<open>
  A thrown JavaScript value: \<^verbatim>\<open>new Error(msg)\<close>, or the \<^verbatim>\<open>TypeError\<close> of reading a
  property of \<^verbatim>\<open>undefined\<close>.  The \<open>error\<close> state is \<^verbatim>\<open>unknown | undefined\<close>: the hook
  stores either the string of an \<open>error\<close> part or a caught exception.
\<close>

datatype js_exception = Js_error string | Js_type_error

datatype error_value = Part_error string | Caught js_exception

text \<open>The five \<^verbatim>\<open>useState\<close> cells of the hook, with their initial values.\<close>

record hook_state =
  messages :: "message list"
  input :: string
  threadId :: "string option"
  status :: assistant_status
  error :: "error_value option"

definition initial_state :: hook_state where
  "initial_state =
     \<lparr>messages = [], input = [], threadId = None, status = Awaiting_message, error = None\<rparr>"

text \<open>
  A state setter is given either a value or an updater function.  React runs an updater
  outside the code that called the setter: \<^verbatim>\<open>setMessages(f)\<close> never throws, and an
  exception of \<open>f\<close> is thrown when the component renders.  A component whose render has
  thrown is gone, and later setter calls have no effect on it.  So a component is either
  alive with its state (\<open>Inr\<close>) or has crashed with the exception of an updater (\<open>Inl\<close>),
  and every setter maps a crashed component to itself.
\<close>

type_synonym component = "js_exception + hook_state"

definition setStatus :: "assistant_status \<Rightarrow> component \<Rightarrow> component" where
  "setStatus v c = (case c of Inl e \<Rightarrow> Inl e | Inr s \<Rightarrow> Inr (s\<lparr>status := v\<rparr>))"

definition setInput :: "string \<Rightarrow> component \<Rightarrow> component" where
  "setInput v c = (case c of Inl e \<Rightarrow> Inl e | Inr s \<Rightarrow> Inr (s\<lparr>input := v\<rparr>))"

definition setThreadId :: "string option \<Rightarrow> component \<Rightarrow> component" where
  "setThreadId v c = (case c of Inl e \<Rightarrow> Inl e | Inr s \<Rightarrow> Inr (s\<lparr>threadId := v\<rparr>))"

definition setError :: "error_value \<Rightarrow> component \<Rightarrow> component" where
  "setError v c = (case c of Inl e \<Rightarrow> Inl e | Inr s \<Rightarrow> Inr (s\<lparr>error := Some v\<rparr>))"

definition setMessages ::
  "(message list \<Rightarrow> js_exception + message list) \<Rightarrow> component \<Rightarrow> component" where
  "setMessages f c =
     (case c of
        Inl e \<Rightarrow> Inl e
      | Inr s \<Rightarrow> (case f (messages s) of Inl e \<Rightarrow> Inl e | Inr ms \<Rightarrow> Inr (s\<lparr>messages := ms\<rparr>)))"

subsection \<open>The updaters of the message list\<close>

text \<open>
  \<^verbatim>\<open>messages => [...messages, {id: value.id, role: value.role,
    content: value.content[0].text.value}]\<close>:
  on an empty \<open>content\<close> array, \<^verbatim>\<open>value.content[0]\<close> is \<^verbatim>\<open>undefined\<close> and reading its
  \<open>text\<close> throws a \<^verbatim>\<open>TypeError\<close>, inside the updater.
\<close>

definition append_assistant_message ::
  "assistant_message \<Rightarrow> message list \<Rightarrow> js_exception + message list" where
  "append_assistant_message v ms =
     (case am_content v of
        [] \<Rightarrow> Inl Js_type_error
      | t # _ \<Rightarrow>
          Inr (ms @ [\<lparr>msg_id = am_id v, msg_role = Assistant, msg_content = t, msg_data = None\<rparr>]))"

text \<open>
  \<^verbatim>\<open>messages => [...messages, {id: value.id ?? '', role: 'data', content: '',
    data: value.data}]\<close>
\<close>

definition append_data_message ::
  "data_message \<Rightarrow> message list \<Rightarrow> js_exception + message list" where
  "append_data_message v ms =
     Inr (ms @ [\<lparr>msg_id = (case dm_id v of None \<Rightarrow> [] | Some i \<Rightarrow> i), msg_role = Data,
                 msg_content = [], msg_data = Some (dm_data v)\<rparr>])"

text \<open>
  The updater of \<open>assistant_control_data\<close> sets the id of the last message; on an empty
  list \<^verbatim>\<open>messages[messages.length - 1]\<close> is \<^verbatim>\<open>undefined\<close> and the list is returned as it
  is.
\<close>

definition set_last_message_id :: "string \<Rightarrow> message list \<Rightarrow> js_exception + message list" where
  "set_last_message_id messageId ms =
     (if ms = [] then Inr ms else Inr (butlast ms @ [(last ms)\<lparr>msg_id := messageId\<rparr>]))"

text \<open>\<^verbatim>\<open>messages => [...messages, {id: '', role: 'user', content: input}]\<close>\<close>

definition append_user_message :: "string \<Rightarrow> message list \<Rightarrow> js_exception + message list" where
  "append_user_message inp ms =
     Inr (ms @ [\<lparr>msg_id = [], msg_role = User, msg_content = inp, msg_data = None\<rparr>])"

subsection \<open>The loop over the decoded parts\<close>

text \<open>
  The body of the \<^verbatim>\<open>for await\<close> loop of \<open>callApi\<close>: a \<^verbatim>\<open>switch\<close> on the type of the
  part, with four cases and no default.
\<close>

fun handle_part :: "stream_part \<Rightarrow> component \<Rightarrow> component" where
  "handle_part (Assistant_message_part v) c = setMessages (append_assistant_message v) c"
| "handle_part (Data_message_part v) c = setMessages (append_data_message v) c"
| "handle_part (Assistant_control_data_part tid mid) c =
     setMessages (set_last_message_id mid) (setThreadId (Some tid) c)"
| "handle_part (Error_part v) c = setError (Part_error v) c"
| "handle_part _ c = c"

fun handle_parts :: "stream_part list \<Rightarrow> component \<Rightarrow> component" where
  "handle_parts [] c = c"
| "handle_parts (p # ps) c = handle_parts ps (handle_part p c)"

subsection \<open>callApi and submitMessage\<close>

text \<open>
  The options of the hook that decide the request, and the request that \<open>fetch\<close> is given:
  the URL and the four fields that \<open>callApi\<close> writes into the JSON body after the spread
  of \<open>body\<close>.  (\<open>credentials\<close>, \<open>headers\<close> and the other fields of \<open>body\<close> are passed through
  and read nowhere else.)
\<close>

record options =
  api :: string
  threadIdParam :: "string option"

record request =
  req_url :: string
  req_threadId :: "string option"
  req_message :: string
  req_data :: "(string \<times> string) list option"
  req_action :: "string option"

text \<open>
  What the world answers.  \<open>fetch\<close> rejects, or resolves with a response whose body is
  \<^verbatim>\<open>null\<close> or a stream.  \<open>readDataStream\<close> (shared/read-data-stream, not part of these
  sources) turns the stream into the parts it yields, in order, and then either ends or
  throws: a finite data stream is that list and that ending.
\<close>

type_synonym data_stream = "stream_part list \<times> js_exception option"

datatype fetch_result = Fetch_rejected js_exception | Fetch_resolved "data_stream option"

text \<open>
  The outcome of an \<^verbatim>\<open>async\<close> call: the requests it issued, how its promise settled
  (\<open>None\<close>: resolved; \<open>Some e\<close>: rejected with \<open>e\<close>), and the component afterwards.
  Nothing else changes the state of the component while the call runs.
\<close>

record outcome =
  requests :: "request list"
  rejected :: "js_exception option"
  component_after :: component

text \<open>
  \<open>callApi\<close>.  \<open>closure\<close> holds the state values of the render that created the function:
  \<open>input\<close> and \<open>threadId\<close> are read from it, not from the state as updated since.
  \<open>request_of\<close> is the argument of \<open>fetch\<close>, with
  \<^verbatim>\<open>threadId: _threadId ?? threadIdParam ?? threadId ?? null\<close>.
\<close>

definition request_of ::
  "options \<Rightarrow> hook_state \<Rightarrow> string option \<Rightarrow> string option \<Rightarrow> (string \<times> string) list option \<Rightarrow>
   request" where
  "request_of opts closure threadId' action data' =
     \<lparr>req_url = api opts,
      req_threadId =
        (case threadId' of
           Some t \<Rightarrow> Some t
         | None \<Rightarrow> (case threadIdParam opts of Some t \<Rightarrow> Some t | None \<Rightarrow> threadId closure)),
      req_message = input closure,
      req_data = data',
      req_action = action\<rparr>"

definition callApi ::
  "options \<Rightarrow> (request \<Rightarrow> fetch_result) \<Rightarrow> hook_state \<Rightarrow> string option \<Rightarrow> string option \<Rightarrow>
   (string \<times> string) list option \<Rightarrow> component \<Rightarrow> outcome" where
  "callApi opts fetch closure threadId' action data' c =
     (let req = request_of opts closure threadId' action data'
      in case fetch req of
           Fetch_rejected e \<Rightarrow> \<lparr>requests = [req], rejected = Some e, component_after = c\<rparr>
         | Fetch_resolved None \<Rightarrow>
             \<lparr>requests = [req], rejected = Some (Js_error ''The response body is empty.''),
              component_after = c\<rparr>
         | Fetch_resolved (Some (parts, ending)) \<Rightarrow>
             (let c1 = handle_parts parts c;
                  c2 = (case ending of None \<Rightarrow> c1 | Some e \<Rightarrow> setError (Caught e) c1)
              in \<lparr>requests = [req], rejected = None,
                  component_after = setStatus Awaiting_message c2\<rparr>))"

text \<open>
  \<open>submitMessage\<close>, called on a live component with state \<open>s\<close>, from the render of that
  state.  \<open>data'\<close> is \<^verbatim>\<open>requestOptions?.data\<close>.  (\<^verbatim>\<open>event?.preventDefault?.()\<close> acts on the
  event alone.)
\<close>

definition submitMessage ::
  "options \<Rightarrow> (request \<Rightarrow> fetch_result) \<Rightarrow> (string \<times> string) list option \<Rightarrow> hook_state \<Rightarrow> outcome"
  where
  "submitMessage opts fetch data' s =
     (if input s = [] then \<lparr>requests = [], rejected = None, component_after = Inr s\<rparr>
      else callApi opts fetch s None None data'
             (setInput []
               (setMessages (append_user_message (input s))
                 (setStatus In_progress (Inr s)))))"

subsection \<open>Properties of the setters and the loop\<close>

lemma handle_parts_append:
  "handle_parts (ps @ qs) c = handle_parts qs (handle_parts ps c)"
  by (induction ps arbitrary: c) simp_all

lemma setters_alive:
  "setStatus v (Inr s) = Inr (s\<lparr>status := v\<rparr>)"
  "setInput i (Inr s) = Inr (s\<lparr>input := i\<rparr>)"
  "setThreadId t (Inr s) = Inr (s\<lparr>threadId := t\<rparr>)"
  "setError e (Inr s) = Inr (s\<lparr>error := Some e\<rparr>)"
  by (simp_all add: setStatus_def setInput_def setThreadId_def setError_def)

lemma setters_crashed:
  "setStatus v (Inl x) = Inl x"
  "setInput i (Inl x) = Inl x"
  "setThreadId t (Inl x) = Inl x"
  "setError e (Inl x) = Inl x"
  "setMessages f (Inl x) = Inl x"
  by (simp_all add: setStatus_def setInput_def setThreadId_def setError_def setMessages_def)

lemma handle_part_crashed: "handle_part p (Inl x) = Inl x"
  by (cases p) (simp_all add: setters_crashed)

lemma handle_parts_crashed: "handle_parts ps (Inl x) = Inl x"
  by (induction ps) (simp_all add: handle_part_crashed)

text \<open>The number of messages of role \<open>user\<close> in a message list.\<close>

definition user_count :: "message list \<Rightarrow> nat" where
  "user_count ms = length (filter (\<lambda>m. msg_role m = User) ms)"

lemma user_count_snoc:
  "user_count (ms @ [m]) = user_count ms + (if msg_role m = User then 1 else 0)"
  by (simp add: user_count_def)

lemma user_count_set_last_message_id:
  "set_last_message_id i ms = Inr ms' \<Longrightarrow> user_count ms' = user_count ms"
proof (cases ms rule: rev_cases)
  case Nil
  then show "set_last_message_id i ms = Inr ms' \<Longrightarrow> user_count ms' = user_count ms"
    by (simp add: set_last_message_id_def)
next
  case (snoc xs m)
  then show "set_last_message_id i ms = Inr ms' \<Longrightarrow> user_count ms' = user_count ms"
    by (auto simp: set_last_message_id_def user_count_snoc)
qed

lemma user_count_append_assistant_message:
  "append_assistant_message v ms = Inr ms' \<Longrightarrow> user_count ms' = user_count ms"
  by (auto simp: append_assistant_message_def user_count_snoc split: list.splits)

lemma user_count_append_data_message:
  "append_data_message v ms = Inr ms' \<Longrightarrow> user_count ms' = user_count ms"
  by (auto simp: append_data_message_def user_count_snoc)

lemma setMessages_alive:
  "setMessages f (Inr s) = Inr s' \<Longrightarrow> \<exists>ms. f (messages s) = Inr ms \<and> s' = s\<lparr>messages := ms\<rparr>"
  by (auto simp: setMessages_def split: sum.splits)

lemma handle_part_keeps:
  assumes "handle_part p (Inr s) = Inr s'"
  shows "input s' = input s \<and> status s' = status s \<and>
         user_count (messages s') = user_count (messages s)"
proof (cases p)
  case (Assistant_message_part v)
  with assms show ?thesis
    by (auto dest!: setMessages_alive user_count_append_assistant_message)
next
  case (Data_message_part v)
  with assms show ?thesis
    by (auto dest!: setMessages_alive user_count_append_data_message)
next
  case (Assistant_control_data_part tid mid)
  with assms show ?thesis
    by (auto simp: setters_alive dest!: setMessages_alive user_count_set_last_message_id)
qed (use assms in \<open>auto simp: setters_alive\<close>)

lemma handle_parts_keeps:
  "handle_parts ps (Inr s) = Inr s' \<Longrightarrow>
     input s' = input s \<and> status s' = status s \<and>
     user_count (messages s') = user_count (messages s)"
proof (induction ps arbitrary: s)
  case Nil
  then show ?case by simp
next
  case (Cons p ps)
  show ?case
  proof (cases "handle_part p (Inr s)")
    case (Inl e)
    with Cons.prems show ?thesis by (simp add: handle_parts_crashed)
  next
    case (Inr s1)
    with Cons.prems have "handle_parts ps (Inr s1) = Inr s'" by simp
    from Cons.IH [OF this] handle_part_keeps [OF Inr] show ?thesis by simp
  qed
qed

lemma callApi_resolved_stream:
  "fetch (request_of opts closure tid action data') = Fetch_resolved (Some (parts, ending)) \<Longrightarrow>
   callApi opts fetch closure tid action data' c =
     \<lparr>requests = [request_of opts closure tid action data'], rejected = None,
      component_after =
        setStatus Awaiting_message
          (case ending of None \<Rightarrow> handle_parts parts c
           | Some e \<Rightarrow> setError (Caught e) (handle_parts parts c))\<rparr>"
  by (simp add: callApi_def Let_def)

lemma callApi_null_body:
  "fetch (request_of opts closure tid action data') = Fetch_resolved None \<Longrightarrow>
   callApi opts fetch closure tid action data' c =
     \<lparr>requests = [request_of opts closure tid action data'],
      rejected = Some (Js_error ''The response body is empty.''), component_after = c\<rparr>"
  by (simp add: callApi_def Let_def)

lemma callApi_rejected:
  "fetch (request_of opts closure tid action data') = Fetch_rejected e \<Longrightarrow>
   callApi opts fetch closure tid action data' c =
     \<lparr>requests = [request_of opts closure tid action data'],
      rejected = Some e, component_after = c\<rparr>"
  by (simp add: callApi_def Let_def)

lemma callApi_requests:
  "requests (callApi opts fetch closure tid action data' c) =
     [request_of opts closure tid action data']"
  by (simp add: callApi_def Let_def split: fetch_result.splits option.splits prod.splits)

lemma setStatus_alive_iff:
  "setStatus v c = Inr s' \<longleftrightarrow> (\<exists>s. c = Inr s \<and> s' = s\<lparr>status := v\<rparr>)"
  by (cases c) (auto simp: setStatus_def)

lemma setError_alive_iff:
  "setError v c = Inr s' \<longleftrightarrow> (\<exists>s. c = Inr s \<and> s' = s\<lparr>error := Some v\<rparr>)"
  by (cases c) (auto simp: setError_def)

lemma callApi_keeps:
  assumes "component_after (callApi opts fetch closure tid action data' (Inr s)) = Inr s'"
  shows "input s' = input s \<and> user_count (messages s') = user_count (messages s)"
proof (cases "fetch (request_of opts closure tid action data')")
  case (Fetch_rejected e)
  with assms show ?thesis by (simp add: callApi_rejected)
next
  case (Fetch_resolved body)
  show ?thesis
  proof (cases body)
    case None
    with Fetch_resolved assms show ?thesis by (simp add: callApi_null_body)
  next
    case (Some stream)
    obtain parts ending where stream: "stream = (parts, ending)" by (cases stream)
    from Fetch_resolved Some stream
    have "fetch (request_of opts closure tid action data') = Fetch_resolved (Some (parts, ending))"
      by simp
    with assms
    have after: "setStatus Awaiting_message
          (case ending of None \<Rightarrow> handle_parts parts (Inr s)
           | Some e \<Rightarrow> setError (Caught e) (handle_parts parts (Inr s))) = Inr s'"
      by (simp add: callApi_resolved_stream)
    then obtain s1 where "handle_parts parts (Inr s) = Inr s1"
      and "input s' = input s1" and "messages s' = messages s1"
      by (cases ending) (auto simp: setStatus_alive_iff setError_alive_iff)
    with handle_parts_keeps [of parts s s1] show ?thesis by simp
  qed
qed

subsection \<open>Claims about the loop, submitMessage and callApi\<close>

text \<open>
  Claim C8.  An \<open>error\<close> part is stored in the \<open>error\<close> state, and the loop goes on: the
  parts after it are handled as they would be anyway, from the state that holds the
  error.  In particular a data message or an assistant message (with a content item) that
  follows an \<open>error\<close> part is appended to the message list.  The last conjunct says the
  same of the whole of \<open>callApi\<close>.
\<close>

theorem error_part_stored_and_loop_continues:
  "handle_part (Error_part v) (Inr s) = Inr (s\<lparr>error := Some (Part_error v)\<rparr>) \<and>
   handle_parts (ps @ Error_part v # qs) c =
     handle_parts qs (setError (Part_error v) (handle_parts ps c)) \<and>
   handle_parts [Error_part v, Data_message_part d] (Inr s) =
     Inr (s\<lparr>error := Some (Part_error v),
            messages := messages s @
              [\<lparr>msg_id = (case dm_id d of None \<Rightarrow> [] | Some i \<Rightarrow> i), msg_role = Data,
                msg_content = [], msg_data = Some (dm_data d)\<rparr>]\<rparr>) \<and>
   handle_parts [Error_part v, Assistant_message_part \<lparr>am_id = i, am_content = t # ts\<rparr>] (Inr s) =
     Inr (s\<lparr>error := Some (Part_error v),
            messages := messages s @
              [\<lparr>msg_id = i, msg_role = Assistant, msg_content = t, msg_data = None\<rparr>]\<rparr>) \<and>
   (fetch (request_of opts closure tid action data') =
      Fetch_resolved (Some (ps @ Error_part v # qs, ending)) \<longrightarrow>
    component_after (callApi opts fetch closure tid action data' c) =
      setStatus Awaiting_message
        (case ending of
           None \<Rightarrow> handle_parts qs (setError (Part_error v) (handle_parts ps c))
         | Some e \<Rightarrow>
             setError (Caught e) (handle_parts qs (setError (Part_error v) (handle_parts ps c)))))"
proof -
  have loop: "handle_parts (ps @ Error_part v # qs) c =
      handle_parts qs (setError (Part_error v) (handle_parts ps c))"
    by (simp add: handle_parts_append)
  have api: "component_after (callApi opts fetch closure tid action data' c) =
      setStatus Awaiting_message
        (case ending of
           None \<Rightarrow> handle_parts qs (setError (Part_error v) (handle_parts ps c))
         | Some e \<Rightarrow>
             setError (Caught e) (handle_parts qs (setError (Part_error v) (handle_parts ps c))))"
    if "fetch (request_of opts closure tid action data') =
      Fetch_resolved (Some (ps @ Error_part v # qs, ending))"
    using that loop by (simp add: callApi_resolved_stream split: option.splits)
  show ?thesis
    using loop api
    by (simp add: setters_alive setMessages_def append_data_message_def
        append_assistant_message_def)
qed

theorem error_part_stored_and_loop_continues_witness:
  "component_after
     (callApi \<lparr>api = ''/api/assistant'', threadIdParam = None\<rparr>
        (\<lambda>r. Fetch_resolved
           (Some ([Text_part ''a''] @ Error_part ''boom'' #
                    [Assistant_message_part \<lparr>am_id = ''m1'', am_content = [''hi'']\<rparr>], None)))
        initial_state None None None (Inr initial_state)) =
   Inr \<lparr>messages =
          [\<lparr>msg_id = ''m1'', msg_role = Assistant, msg_content = ''hi'', msg_data = None\<rparr>],
        input = [], threadId = None, status = Awaiting_message,
        error = Some (Part_error ''boom'')\<rparr>"
  using error_part_stored_and_loop_continues
    [where v = "''boom''" and ps = "[Text_part ''a'']"
       and qs = "[Assistant_message_part \<lparr>am_id = ''m1'', am_content = [''hi'']\<rparr>]"
       and c = "Inr initial_state" and ending = None
       and fetch = "\<lambda>r. Fetch_resolved
           (Some ([Text_part ''a''] @ Error_part ''boom'' #
                    [Assistant_message_part \<lparr>am_id = ''m1'', am_content = [''hi'']\<rparr>], None))"
       and opts = "\<lparr>api = ''/api/assistant'', threadIdParam = None\<rparr>"
       and closure = initial_state and tid = None and action = None and data' = None]
  by (simp add: setters_alive setMessages_def append_assistant_message_def initial_state_def)

text \<open>
  Claim C9.  With an empty input \<open>submitMessage\<close> returns at once: no request is issued
  and the state is the one it was called in.  With a non-empty input it is \<open>callApi\<close> run
  on the state in which the status is \<open>in_progress\<close>, one user message with id \<open>''\<close> and
  the input as content has been appended, and the input is empty: the append and the
  reset come before the one request.  If the component is alive afterwards, its input is
  still empty and its message list holds exactly one user message more than before.
\<close>

theorem submitMessage_empty_and_non_empty_input:
  "(input s = [] \<longrightarrow>
      submitMessage opts fetch data' s =
        \<lparr>requests = [], rejected = None, component_after = Inr s\<rparr>) \<and>
   (input s \<noteq> [] \<longrightarrow>
      submitMessage opts fetch data' s =
        callApi opts fetch s None None data'
          (Inr (s\<lparr>status := In_progress,
                 messages := messages s @
                   [\<lparr>msg_id = [], msg_role = User, msg_content = input s, msg_data = None\<rparr>],
                 input := []\<rparr>)) \<and>
      requests (submitMessage opts fetch data' s) = [request_of opts s None None data'] \<and>
      req_message (request_of opts s None None data') = input s \<and>
      (\<forall>s'. component_after (submitMessage opts fetch data' s) = Inr s' \<longrightarrow>
            input s' = [] \<and> user_count (messages s') = Suc (user_count (messages s))))"
proof -
  let ?pre = "s\<lparr>status := In_progress,
                messages := messages s @
                  [\<lparr>msg_id = [], msg_role = User, msg_content = input s, msg_data = None\<rparr>],
                input := []\<rparr>"
  have empty: "submitMessage opts fetch data' s =
      \<lparr>requests = [], rejected = None, component_after = Inr s\<rparr>" if "input s = []"
    using that by (simp add: submitMessage_def)
  have run: "submitMessage opts fetch data' s = callApi opts fetch s None None data' (Inr ?pre)"
    if "input s \<noteq> []"
    using that
    by (simp add: submitMessage_def setters_alive setMessages_def append_user_message_def)
  have after: "input s' = [] \<and> user_count (messages s') = Suc (user_count (messages s))"
    if "input s \<noteq> []" and "component_after (submitMessage opts fetch data' s) = Inr s'" for s'
  proof -
    from that run have "component_after (callApi opts fetch s None None data' (Inr ?pre)) = Inr s'"
      by simp
    from callApi_keeps [OF this] show ?thesis
      by (simp add: user_count_snoc)
  qed
  have msg: "req_message (request_of opts s None None data') = input s"
    by (simp add: request_of_def)
  show ?thesis
  proof (intro conjI impI allI)
    assume "input s = []"
    then show "submitMessage opts fetch data' s =
        \<lparr>requests = [], rejected = None, component_after = Inr s\<rparr>"
      by (rule empty)
  next
    assume "input s \<noteq> []"
    then show "submitMessage opts fetch data' s = callApi opts fetch s None None data' (Inr ?pre)"
      by (rule run)
  next
    assume "input s \<noteq> []"
    then have "submitMessage opts fetch data' s = callApi opts fetch s None None data' (Inr ?pre)"
      by (rule run)
    then show "requests (submitMessage opts fetch data' s) = [request_of opts s None None data']"
      by (simp only: callApi_requests)
  next
    show "req_message (request_of opts s None None data') = input s"
      by (rule msg)
  next
    fix s'
    assume "input s \<noteq> []" and "component_after (submitMessage opts fetch data' s) = Inr s'"
    then have both: "input s' = [] \<and> user_count (messages s') = Suc (user_count (messages s))"
      by (rule after)
    from both show "input s' = []" ..
    from both show "user_count (messages s') = Suc (user_count (messages s))" ..
  qed
qed

theorem submitMessage_empty_and_non_empty_input_witness:
  "submitMessage \<lparr>api = ''/api/assistant'', threadIdParam = None\<rparr>
     (\<lambda>r. Fetch_resolved (Some ([], None))) None initial_state =
     \<lparr>requests = [], rejected = None, component_after = Inr initial_state\<rparr> \<and>
   submitMessage \<lparr>api = ''/api/assistant'', threadIdParam = None\<rparr>
     (\<lambda>r. Fetch_resolved (Some ([], None))) None (initial_state\<lparr>input := ''hello''\<rparr>) =
     \<lparr>requests =
        [\<lparr>req_url = ''/api/assistant'', req_threadId = None, req_message = ''hello'',
          req_data = None, req_action = None\<rparr>],
      rejected = None,
      component_after =
        Inr \<lparr>messages =
               [\<lparr>msg_id = [], msg_role = User, msg_content = ''hello'', msg_data = None\<rparr>],
             input = [], threadId = None, status = Awaiting_message, error = None\<rparr>\<rparr>"
proof -
  let ?opts = "\<lparr>api = ''/api/assistant'', threadIdParam = None\<rparr>"
  let ?fetch = "\<lambda>r::request. Fetch_resolved (Some ([], None))"
  let ?typed = "initial_state\<lparr>input := ''hello''\<rparr>"
  have e: "input initial_state = []"
    by (simp add: initial_state_def)
  have ne: "input ?typed \<noteq> []"
    by simp
  note empty =
    submitMessage_empty_and_non_empty_input
      [where s = initial_state and opts = ?opts and fetch = ?fetch and data' = None,
        THEN conjunct1, THEN mp, OF e]
  note typed =
    submitMessage_empty_and_non_empty_input
      [where s = ?typed and opts = ?opts and fetch = ?fetch and data' = None,
        THEN conjunct2, THEN mp, OF ne, THEN conjunct1]
  have run: "callApi ?opts ?fetch ?typed None None None
       (Inr (?typed\<lparr>status := In_progress,
               messages := messages ?typed @
                 [\<lparr>msg_id = [], msg_role = User, msg_content = input ?typed, msg_data = None\<rparr>],
               input := []\<rparr>)) =
     \<lparr>requests =
        [\<lparr>req_url = ''/api/assistant'', req_threadId = None, req_message = ''hello'',
          req_data = None, req_action = None\<rparr>],
      rejected = None,
      component_after =
        Inr \<lparr>messages =
               [\<lparr>msg_id = [], msg_role = User, msg_content = ''hello'', msg_data = None\<rparr>],
             input = [], threadId = None, status = Awaiting_message, error = None\<rparr>\<rparr>"
    by (simp add: initial_state_def callApi_def request_of_def setters_alive)
  show ?thesis
    by (simp only: empty typed run simp_thms)
qed

text \<open>
  Claim C10.  When \<open>fetch\<close> resolves with a body, \<open>callApi\<close> resolves: an exception that
  ends the stream of parts is caught and stored in the \<open>error\<close> state, and the status is
  set to \<open>awaiting_message\<close> after the loop, whether the stream ended or threw.  When the
  body is \<^verbatim>\<open>null\<close>, \<open>callApi\<close> rejects with \<^verbatim>\<open>Error('The response body is empty.')\<close> and
  the component, its status included, is as it was.
\<close>

theorem callApi_catches_stream_exceptions:
  "(fetch (request_of opts closure tid action data') = Fetch_resolved (Some (parts, ending)) \<longrightarrow>
      rejected (callApi opts fetch closure tid action data' c) = None \<and>
      component_after (callApi opts fetch closure tid action data' c) =
        setStatus Awaiting_message
          (case ending of
             None \<Rightarrow> handle_parts parts c
           | Some e \<Rightarrow> setError (Caught e) (handle_parts parts c)) \<and>
      (\<forall>s'. component_after (callApi opts fetch closure tid action data' c) = Inr s' \<longrightarrow>
            status s' = Awaiting_message \<and>
            (\<forall>e. ending = Some e \<longrightarrow> error s' = Some (Caught e)))) \<and>
   (fetch (request_of opts closure tid action data') = Fetch_resolved None \<longrightarrow>
      rejected (callApi opts fetch closure tid action data' c) =
        Some (Js_error ''The response body is empty.'') \<and>
      component_after (callApi opts fetch closure tid action data' c) = c)"
proof -
  have stream: "callApi opts fetch closure tid action data' c =
      \<lparr>requests = [request_of opts closure tid action data'], rejected = None,
       component_after =
         setStatus Awaiting_message
           (case ending of None \<Rightarrow> handle_parts parts c
            | Some e \<Rightarrow> setError (Caught e) (handle_parts parts c))\<rparr>"
    if "fetch (request_of opts closure tid action data') = Fetch_resolved (Some (parts, ending))"
    using that by (simp add: callApi_resolved_stream)
  have alive: "status s' = Awaiting_message \<and> (\<forall>e. ending = Some e \<longrightarrow> error s' = Some (Caught e))"
    if "fetch (request_of opts closure tid action data') = Fetch_resolved (Some (parts, ending))"
      and "component_after (callApi opts fetch closure tid action data' c) = Inr s'" for s'
    using that(2) stream [OF that(1)]
    by (cases ending) (auto simp: setStatus_alive_iff setError_alive_iff)
  have null: "callApi opts fetch closure tid action data' c =
      \<lparr>requests = [request_of opts closure tid action data'],
       rejected = Some (Js_error ''The response body is empty.''), component_after = c\<rparr>"
    if "fetch (request_of opts closure tid action data') = Fetch_resolved None"
    using that by (simp add: callApi_null_body)
  show ?thesis
  proof (intro conjI impI allI)
    fix s' e
    assume f: "fetch (request_of opts closure tid action data') = Fetch_resolved (Some (parts, ending))"
      and a: "component_after (callApi opts fetch closure tid action data' c) = Inr s'"
    from alive [OF f a] show "status s' = Awaiting_message" by simp
    assume "ending = Some e"
    with alive [OF f a] show "error s' = Some (Caught e)" by simp
  qed (simp_all add: stream null)
qed

theorem callApi_catches_stream_exceptions_witness:
  "rejected (callApi \<lparr>api = ''/api/assistant'', threadIdParam = None\<rparr>
     (\<lambda>r. Fetch_resolved (Some ([Data_message_part \<lparr>dm_id = None, dm_data = JNull\<rparr>],
                                 Some (Js_error ''network''))))
     initial_state None None None (Inr (initial_state\<lparr>status := In_progress\<rparr>))) = None \<and>
   component_after (callApi \<lparr>api = ''/api/assistant'', threadIdParam = None\<rparr>
     (\<lambda>r. Fetch_resolved (Some ([Data_message_part \<lparr>dm_id = None, dm_data = JNull\<rparr>],
                                 Some (Js_error ''network''))))
     initial_state None None None (Inr (initial_state\<lparr>status := In_progress\<rparr>))) =
     Inr \<lparr>messages =
            [\<lparr>msg_id = [], msg_role = Data, msg_content = [], msg_data = Some JNull\<rparr>],
          input = [], threadId = None, status = Awaiting_message,
          error = Some (Caught (Js_error ''network''))\<rparr> \<and>
   rejected (callApi \<lparr>api = ''/api/assistant'', threadIdParam = None\<rparr>
     (\<lambda>r. Fetch_resolved None)
     initial_state None None None (Inr (initial_state\<lparr>status := In_progress\<rparr>))) =
     Some (Js_error ''The response body is empty.'') \<and>
   component_after (callApi \<lparr>api = ''/api/assistant'', threadIdParam = None\<rparr>
     (\<lambda>r. Fetch_resolved None)
     initial_state None None None (Inr (initial_state\<lparr>status := In_progress\<rparr>))) =
     Inr \<lparr>messages = [], input = [], threadId = None, status = In_progress, error = None\<rparr>"
proof -
  let ?opts = "\<lparr>api = ''/api/assistant'', threadIdParam = None\<rparr>"
  let ?c = "Inr (initial_state\<lparr>status := In_progress\<rparr>) :: component"
  let ?parts = "[Data_message_part \<lparr>dm_id = None, dm_data = JNull\<rparr>]"
  let ?fetch1 = "\<lambda>r::request. Fetch_resolved (Some (?parts, Some (Js_error ''network'')))"
  let ?fetch2 = "\<lambda>r::request. Fetch_resolved None"
  from callApi_catches_stream_exceptions
      [where opts = ?opts and fetch = ?fetch1 and closure = initial_state and tid = None
         and action = None and data' = None and c = ?c and parts = ?parts
         and ending = "Some (Js_error ''network'')"]
  have one: "rejected (callApi ?opts ?fetch1 initial_state None None None ?c) = None"
    "component_after (callApi ?opts ?fetch1 initial_state None None None ?c) =
       setStatus Awaiting_message (setError (Caught (Js_error ''network''))
         (handle_parts ?parts ?c))"
    by simp_all
  from callApi_catches_stream_exceptions
      [where opts = ?opts and fetch = ?fetch2 and closure = initial_state and tid = None
         and action = None and data' = None and c = ?c]
  have two: "rejected (callApi ?opts ?fetch2 initial_state None None None ?c) =
      Some (Js_error ''The response body is empty.'')"
    "component_after (callApi ?opts ?fetch2 initial_state None None None ?c) = ?c"
    by simp_all
  show ?thesis
    by (simp only: one two)
      (simp add: initial_state_def setters_alive setMessages_def append_data_message_def)
qed

section \<open>JSON text: the platform's JSON.stringify and JSON.parse\<close>

subsection \<open>Numbers\<close>

text \<open>
  An integer is written in decimal, with a minus sign when negative and no leading zero;
  this is what \<^verbatim>\<open>JSON.stringify\<close> writes for a safe integer (it turns to the exponent
  form only from \<open>10^21\<close> on).  The reader follows the JSON grammar
  \<^verbatim>\<open>-? (0 | [1-9][0-9]*)\<close>.  A number with a fraction or an exponent is JSON that this
  development does not cover: the reader answers \<open>None\<close> for it, as it does for text
  that is not JSON.  Every property below is about safe integers only, and says so
  (\<open>wf_json\<close>).
\<close>

definition is_digit :: "char \<Rightarrow> bool" where
  "is_digit c = (48 \<le> (of_char c :: nat) \<and> (of_char c :: nat) \<le> 57)"









text \<open>
  Where a number may stop: at the end of the text, or before a character that cannot
  continue it.
\<close>

definition number_end :: "string \<Rightarrow> bool" where
  "number_end rest =
     (case rest of
        [] \<Rightarrow> True
      | c # _ \<Rightarrow> \<not> is_digit c \<and> c \<noteq> CHR ''.'' \<and> c \<noteq> CHR ''e'' \<and> c \<noteq> CHR ''E'')"














subsection \<open>Strings\<close>





















subsection \<open>Values\<close>



text \<open>
  \<^verbatim>\<open>JSON.parse\<close>, by recursive descent.  White space (space, tab, line feed, carriage
  return) is skipped before every token.  The first argument bounds the number of nested
  calls; \<open>JSON_parse\<close> starts with the length of the text, and every call but the first
  follows a character that has been read.  When an object names a key twice, the later
  value wins and the key keeps its first place, as in JavaScript.
\<close>

definition is_ws :: "char \<Rightarrow> bool" where
  "is_ws c = (c = CHR '' '' \<or> c = CHR 0x09 \<or> c = CHR 0x0A \<or> c = CHR 0x0D)"

definition skip_ws :: "string \<Rightarrow> string" where
  "skip_ws s = dropWhile is_ws s"






subsection \<open>Reading back what was written\<close>



definition starts_value :: "string \<Rightarrow> bool" where
  "starts_value s =
     (case s of [] \<Rightarrow> False | c # _ \<Rightarrow> \<not> is_ws c \<and> c \<noteq> CHR '']'' \<and> c \<noteq> CHR ''}'')"


lemma skip_ws_starts_value: "starts_value s \<Longrightarrow> skip_ws s = s"
  by (cases s) (simp_all add: starts_value_def skip_ws_def)

lemma skip_ws_delimiter [simp]:
  "skip_ws (CHR '']'' # s) = CHR '']'' # s"
  "skip_ws (CHR ''}'' # s) = CHR ''}'' # s"
  "skip_ws (CHR '','' # s) = CHR '','' # s"
  "skip_ws (CHR '':'' # s) = CHR '':'' # s"
  "skip_ws (CHR 0x22 # s) = CHR 0x22 # s"
  by (simp_all add: skip_ws_def is_ws_def)

lemma number_end_delimiter [simp]:
  "number_end (CHR '']'' # s)" "number_end (CHR ''}'' # s)" "number_end (CHR '','' # s)"
  "number_end []" "number_end [CHR 0x0A]"
  by (simp_all add: number_end_def is_digit_def)

































section \<open>The stream part registry and the wire format\<close>

subsection \<open>Codes, names and values of the stream parts\<close>








subsection \<open>Encoding and decoding a line\<close>














subsection \<open>Properties of the registry\<close>























section \<open>The multiplexed stream decoder\<close>

text \<open>
  The decoder is \<open>createChunkDecoder\<close> with \<open>complex\<close> true, declared in index.d.ts
  (lines 337 to 340); its body is not in the sources.  Section 4.5 of the spec describes
  it: ``Maintain a pending-byte buffer; on each chunk, scan for the delimiter; on each
  complete line, split at the first \<open>:\<close>, look up the code in the Registry, JSON-parse
  the remainder, and yield the decoded part.  Fails with \<open>ProtocolError\<close> on malformed
  lines; a partial line at stream end with no trailing delimiter is an error''.
\<close>
















end
